theory Spec2Isabelle
  imports Main
begin

section \<open>TensorWrapper: level-tagged proxy tensors (functorch/csrc/TensorWrapper.cpp)\<close>

subsection \<open>Dispatch keys and tensors\<close>

text \<open>
  A \<open>DispatchKeySet\<close> is a set of dispatch keys. The file names four keys: the three
  autograd backend keys and \<open>kGradWrapperKey\<close> (the key \<open>FT_GRAD_WRAPPER_KEY\<close> under which
  the fallback is registered). All other keys are \<open>BackendKey n\<close>.

  \<open>kGradWrapperKey\<close> is added to a key set only by \<open>makeTensorWrapperPtr\<close> and
  \<open>makeTensorWrapper\<close>, that is, only to a \<open>TensorWrapper\<close>; the unchecked cast in
  \<open>maybeGetTensorWrapper\<close> relies on that. The keys of a tensor that is not a
  \<open>TensorWrapper\<close> are therefore of the type \<open>PlainKey\<close>, which has no wrapper key.
\<close>

datatype PlainKey = AutogradCPU | AutogradCUDA | AutogradXLA | BackendKey nat

datatype DispatchKey = kGradWrapperKey | Key PlainKey

text \<open>
  A \<open>Tensor\<close> is undefined, a plain tensor (keys, one (size, stride) pair per dimension as
  in \<open>c10::impl::SizesAndStrides\<close>, storage offset, and a number that stands for its
  storage), or a \<open>TensorWrapper\<close>. The fields of \<open>TensorWrapper\<close> are those the constructor
  and the methods of the file read and write: the key set handed to the base class,
  \<open>value_\<close>, \<open>level_\<close>, \<open>is_alive_\<close> (the address of the shared \<open>bool\<close>), the mirrored
  metadata, and the base-class fields set by \<open>set_storage_access_should_throw\<close>,
  \<open>set_version_counter\<close> and \<open>set_allow_tensor_metadata_change\<close>.
  Levels, sizes and strides are \<open>int64_t\<close> in the source; the file only copies and compares
  them, so they are integers here. A member \<open>x_\<close> of the source is the field \<open>x_m\<close>.
  The key set is the one handed to the base-class constructor, stored as given.
\<close>

datatype Tensor =
    Undefined
  | Plain (plain_keys: "PlainKey set") (plain_sizes_and_strides: "(int \<times> int) list")
      (plain_storage_offset: int) (plain_storage: nat)
  | Wrap TensorWrapper
and TensorWrapper =
    TensorWrapper (key_set_m: "DispatchKey set") (value_m: Tensor) (level_m: int) (is_alive_m: nat)
      (sizes_and_strides_m: "(int \<times> int) list") (storage_offset_m: int) (numel_m: int)
      (contiguity_m: "bool list") (storage_access_should_throw_m: bool)
      (version_counter_m: nat) (allow_tensor_metadata_change_m: bool)

datatype error = InternalAssert string | OutOfRange

text \<open>
  The world a call runs in: the store of the shared liveness flags (\<open>std::shared_ptr<bool>\<close>,
  a handle is an address, \<open>next_handle\<close> the next free one), and what the file takes from
  its collaborators, none of which is defined in the file: \<open>getLifeHandleForLevel\<close> (the
  handle of the transformation at a level), the constant \<open>kKeysToPropagateToWrapper\<close>,
  the filter \<open>getKeysToPropagateToWrapper\<close>, the base class's \<open>refresh_numel\<close> and
  \<open>refresh_contiguous\<close> (functions of the mirrored sizes and strides), and the tensor
  that \<open>at::Tensor::copy_\<close> returns.
\<close>

record world =
  flags :: "nat \<Rightarrow> bool"
  next_handle :: nat
  getLifeHandleForLevel :: "int \<Rightarrow> nat"
  kKeysToPropagateToWrapper :: "DispatchKey set"
  getKeysToPropagateToWrapper :: "Tensor \<Rightarrow> DispatchKey set \<Rightarrow> DispatchKey set"
  refresh_numel :: "(int \<times> int) list \<Rightarrow> int"
  refresh_contiguous :: "(int \<times> int) list \<Rightarrow> bool list"
  Tensor_copy :: "Tensor \<Rightarrow> Tensor \<Rightarrow> bool \<Rightarrow> Tensor"

fun key_set :: "Tensor \<Rightarrow> DispatchKey set" where
  "key_set Undefined = {}"
| "key_set (Plain ks sas off st) = Key ` ks"
| "key_set (Wrap tw) = key_set_m tw"

fun defined :: "Tensor \<Rightarrow> bool" where
  "defined Undefined = False"
| "defined (Plain ks sas off st) = True"
| "defined (Wrap tw) = True"

text \<open>
  The metadata accessors of a tensor. A wrapper answers with its mirror. The constructor
  asserts that the tensor is defined before it reads any of them, so the value at
  \<open>Undefined\<close> is never used.
\<close>

fun tensor_sizes_and_strides :: "Tensor \<Rightarrow> (int \<times> int) list" where
  "tensor_sizes_and_strides Undefined = []"
| "tensor_sizes_and_strides (Plain ks sas off st) = sas"
| "tensor_sizes_and_strides (Wrap tw) = sizes_and_strides_m tw"

definition sizes :: "Tensor \<Rightarrow> int list" where
  "sizes t = map fst (tensor_sizes_and_strides t)"

definition strides :: "Tensor \<Rightarrow> int list" where
  "strides t = map snd (tensor_sizes_and_strides t)"

definition dim :: "Tensor \<Rightarrow> nat" where
  "dim t = length (tensor_sizes_and_strides t)"

fun storage_offset :: "Tensor \<Rightarrow> int" where
  "storage_offset Undefined = 0"
| "storage_offset (Plain ks sas off st) = off"
| "storage_offset (Wrap tw) = storage_offset_m tw"

subsection \<open>Liveness and level\<close>

text \<open>\<open>TensorWrapper::is_alive\<close>: \<open>return *is_alive_;\<close>\<close>

definition is_alive :: "world \<Rightarrow> TensorWrapper \<Rightarrow> bool" where
  "is_alive w tw = flags w (is_alive_m tw)"

text \<open>\<open>TensorWrapper::value\<close>: the accessor of \<open>value_\<close>.\<close>

definition "value" :: "TensorWrapper \<Rightarrow> Tensor" where
  "value tw = value_m tw"

text \<open>
  Modelled from the spec: \<open>TensorWrapper::level\<close> is declared in the header, which is not
  among the sources. The spec: "returns the creation level if the proxy is alive, else an
  empty/absent value".
\<close>

definition level :: "world \<Rightarrow> TensorWrapper \<Rightarrow> int option" where
  "level w tw = (if is_alive w tw then Some (level_m tw) else None)"

text \<open>
  Modelled from the spec: \<open>markDead(handle)\<close> "sets it false" and \<open>create()\<close> "returns a
  fresh handle initialized true". Both belong to the transformation stack, not to this
  file.
\<close>

definition markDead :: "nat \<Rightarrow> world \<Rightarrow> world" where
  "markDead h w = w\<lparr>flags := (flags w)(h := False)\<rparr>"

definition create :: "world \<Rightarrow> world \<times> nat" where
  "create w = (w\<lparr>flags := (flags w)(next_handle w := True), next_handle := Suc (next_handle w)\<rparr>,
               next_handle w)"

text \<open>
  \<open>wrapped->level() < level\<close> compares an \<open>optional<int64_t>\<close> with an \<open>int64_t\<close>: an empty
  optional is less than every value.
\<close>

fun optional_less :: "int option \<Rightarrow> int \<Rightarrow> bool" where
  "optional_less None v = True"
| "optional_less (Some x) v = (x < v)"

subsection \<open>maybeGetTensorWrapper\<close>

text \<open>
  Null when the key set lacks \<open>kGradWrapperKey\<close>, else the implementation cast to
  \<open>TensorWrapper*\<close>. Only a \<open>TensorWrapper\<close> can carry the key, so the last case is never
  taken.
\<close>

definition maybeGetTensorWrapper :: "Tensor \<Rightarrow> TensorWrapper option" where
  "maybeGetTensorWrapper tensor =
     (if kGradWrapperKey \<notin> key_set tensor then None
      else (case tensor of Wrap tw \<Rightarrow> Some tw | _ \<Rightarrow> None))"

subsection \<open>refreshMetadata and the constructor\<close>

text \<open>\<open>SizesAndStrides::resize\<close>: keeps the leading entries, new entries are zero.\<close>

definition resize :: "(int \<times> int) list \<Rightarrow> nat \<Rightarrow> (int \<times> int) list" where
  "resize sas n = take n sas @ replicate (n - length sas) (0, 0)"

text \<open>The loop \<open>for (int64_t i = 0; i < dim; i++)\<close> of \<open>refreshMetadata\<close>.\<close>

function refresh_loop ::
  "nat \<Rightarrow> nat \<Rightarrow> int list \<Rightarrow> int list \<Rightarrow> (int \<times> int) list \<Rightarrow> (int \<times> int) list" where
  "refresh_loop i d szs strs sas =
     (if i < d then refresh_loop (Suc i) d szs strs (sas[i := (szs ! i, strs ! i)])
      else sas)"
  by pat_completeness auto
termination
  by (relation "measure (\<lambda>(i, d, szs, strs, sas). d - i)") auto

declare refresh_loop.simps [simp del]

fun refreshMetadata :: "world \<Rightarrow> TensorWrapper \<Rightarrow> TensorWrapper" where
  "refreshMetadata w (TensorWrapper ks v l h sas off n c sa vc am) =
     (let d = dim v;
          szs = sizes v;
          strs = strides v;
          off' = storage_offset v;
          sas' = refresh_loop 0 d szs strs (resize sas d)
      in TensorWrapper ks v l h sas' off' (refresh_numel w sas') (refresh_contiguous w sas')
           sa vc am)"

fun set_storage_access_should_throw :: "TensorWrapper \<Rightarrow> TensorWrapper" where
  "set_storage_access_should_throw (TensorWrapper ks v l h sas off n c sa vc am) =
     TensorWrapper ks v l h sas off n c True vc am"

fun set_version_counter :: "nat \<Rightarrow> TensorWrapper \<Rightarrow> TensorWrapper" where
  "set_version_counter vc' (TensorWrapper ks v l h sas off n c sa vc am) =
     TensorWrapper ks v l h sas off n c sa vc' am"

fun set_allow_tensor_metadata_change :: "bool \<Rightarrow> TensorWrapper \<Rightarrow> TensorWrapper" where
  "set_allow_tensor_metadata_change am' (TensorWrapper ks v l h sas off n c sa vc am) =
     TensorWrapper ks v l h sas off n c sa vc am'"

text \<open>
  The state of a \<open>TensorImpl\<close> when the body of the derived constructor starts: the key
  set it was given, one dimension of size 0 and stride 1, one element, version 0,
  metadata change allowed.
\<close>

definition TensorImpl_init ::
  "DispatchKey set \<Rightarrow> Tensor \<Rightarrow> int \<Rightarrow> nat \<Rightarrow> TensorWrapper" where
  "TensorImpl_init ks v l h = TensorWrapper ks v l h [(0, 1)] 0 1 [] False 0 True"

text \<open>
  \<open>TensorWrapper::TensorWrapper(key_set, value, level, is_alive, use_value_sizes_strides)\<close>.
\<close>

definition TensorWrapper_ctor ::
  "world \<Rightarrow> DispatchKey set \<Rightarrow> Tensor \<Rightarrow> int \<Rightarrow> nat \<Rightarrow> bool \<Rightarrow> error + TensorWrapper" where
  "TensorWrapper_ctor w ks v l h use_value_sizes_strides =
     (if \<not> defined v then Inl (InternalAssert ''value_.defined()'')
      else if \<not> use_value_sizes_strides then Inl (InternalAssert ''use_value_sizes_strides'')
      else Inr (set_storage_access_should_throw (refreshMetadata w (TensorImpl_init ks v l h))))"

subsection \<open>makeTensorWrapperPtr, makeTensorWrapper, shallow_copy_and_detach\<close>

definition autograd_keys :: "DispatchKey set" where
  "autograd_keys = {Key AutogradCPU, Key AutogradCUDA, Key AutogradXLA}"

text \<open>The key set both factory functions compute (lines 62-65 and 79-82).\<close>

definition wrapper_key_set :: "world \<Rightarrow> Tensor \<Rightarrow> DispatchKey set" where
  "wrapper_key_set w tensor =
     (let keys_to_propagate = kKeysToPropagateToWrapper w \<union> autograd_keys;
          ks = getKeysToPropagateToWrapper w tensor keys_to_propagate
      in insert kGradWrapperKey ks)"

text \<open>
  \<open>makeTensorWrapperPtr\<close>: an alive wrapper takes the handle of its level, a dead one a
  fresh flag that is false (\<open>std::make_shared<bool>(false)\<close>). The constructor's fifth
  argument is its default, \<open>true\<close>.
\<close>

definition makeTensorWrapperPtr ::
  "world \<Rightarrow> Tensor \<Rightarrow> int \<Rightarrow> bool \<Rightarrow> error + (world \<times> TensorWrapper)" where
  "makeTensorWrapperPtr w tensor l should_be_alive =
     (let ks = wrapper_key_set w tensor in
      if should_be_alive then
        (case TensorWrapper_ctor w ks tensor l (getLifeHandleForLevel w l) True of
           Inl e \<Rightarrow> Inl e
         | Inr tw \<Rightarrow> Inr (w, tw))
      else
        (let h = next_handle w;
             w' = w\<lparr>flags := (flags w)(h := False), next_handle := Suc h\<rparr>
         in case TensorWrapper_ctor w' ks tensor l h True of
              Inl e \<Rightarrow> Inl e
            | Inr tw \<Rightarrow> Inr (w', tw)))"

definition makeTensorWrapper :: "world \<Rightarrow> Tensor \<Rightarrow> int \<Rightarrow> error + Tensor" where
  "makeTensorWrapper w tensor l =
     (if (case maybeGetTensorWrapper tensor of
            Some wrapped \<Rightarrow> \<not> optional_less (level w wrapped) l
          | None \<Rightarrow> False)
      then Inl (InternalAssert ''wrapped->level() < level'')
      else
        (let ks = wrapper_key_set w tensor;
             life_handle = getLifeHandleForLevel w l
         in case TensorWrapper_ctor w ks tensor l life_handle True of
              Inl e \<Rightarrow> Inl e
            | Inr tw \<Rightarrow>
                if kGradWrapperKey \<notin> key_set (Wrap tw)
                then Inl (InternalAssert ''result.key_set().has(kGradWrapperKey)'')
                else Inr (Wrap tw)))"

text \<open>
  \<open>shallow_copy_and_detach\<close>: the two overloads have the same body.
\<close>

definition shallow_copy_and_detach ::
  "world \<Rightarrow> TensorWrapper \<Rightarrow> nat \<Rightarrow> bool \<Rightarrow> error + (world \<times> TensorWrapper)" where
  "shallow_copy_and_detach w this version_counter allow_tensor_metadata_change =
     (case makeTensorWrapperPtr w (value this) (level_m this) (is_alive w this) of
        Inl e \<Rightarrow> Inl e
      | Inr (w', dest_impl) \<Rightarrow>
          Inr (w', set_allow_tensor_metadata_change allow_tensor_metadata_change
                     (set_version_counter version_counter dest_impl)))"

subsection \<open>The unsupported methods\<close>

definition shallow_copy_from :: "TensorWrapper \<Rightarrow> Tensor \<Rightarrow> error + TensorWrapper" where
  "shallow_copy_from this impl = Inl (InternalAssert ''NYI'')"

definition set_size :: "TensorWrapper \<Rightarrow> int \<Rightarrow> int \<Rightarrow> error + TensorWrapper" where
  "set_size this d new_size = Inl (InternalAssert ''Can't set_size for TensorWrapper'')"

definition set_stride :: "TensorWrapper \<Rightarrow> int \<Rightarrow> int \<Rightarrow> error + TensorWrapper" where
  "set_stride this d new_stride = Inl (InternalAssert ''Can't set_stride for TensorWrapper'')"

definition set_storage_offset :: "TensorWrapper \<Rightarrow> int \<Rightarrow> error + TensorWrapper" where
  "set_storage_offset this off =
     Inl (InternalAssert ''Can't set_storage_offset for TensorWrapper'')"

subsection \<open>The dead-wrapper fallback\<close>

text \<open>
  The operand stack holds tensors and other values. An operator handle gives its name and
  the number of arguments of its schema.
\<close>

datatype IValue = IValueTensor Tensor | IValueOther nat

datatype OperatorHandle = OperatorHandle (op_name: string) (arguments_size: nat)

text \<open>The calls the handlers make into the library: \<open>TORCH_WARN\<close>, \<open>op.callBoxed(stack)\<close>
  and \<open>at::Tensor::copy_\<close>.\<close>

datatype effect =
    Warn
  | CallBoxed OperatorHandle "IValue list"
  | Copy Tensor Tensor bool

text \<open>
  The closure \<open>unwrapIfDeadAndIncrement\<close>; it captures \<open>unwrapped_count\<close> by reference, so
  the count is passed in and returned. The count is an \<open>int64_t\<close> that grows by one per
  operand, an integer here.
\<close>

definition unwrapIfDeadAndIncrement :: "world \<Rightarrow> Tensor \<Rightarrow> int \<Rightarrow> Tensor \<times> int" where
  "unwrapIfDeadAndIncrement w tensor unwrapped_count =
     (case maybeGetTensorWrapper tensor of
        None \<Rightarrow> (tensor, unwrapped_count)
      | Some wrapped \<Rightarrow>
          if is_alive w wrapped then (tensor, unwrapped_count)
          else (value wrapped, unwrapped_count + 1))"

text \<open>
  Modelled from the spec: \<open>foreachTensorInplace\<close> is not defined in the file. The spec:
  "every operand across the whole operation's argument list is scanned", each tensor
  among the stack entries \<open>begin \<le> idx < end\<close> being replaced by what the function
  returns for it. An index outside the stack is an error of its own.
\<close>

function foreachTensorInplace ::
  "IValue list \<Rightarrow> int \<Rightarrow> int \<Rightarrow> (Tensor \<Rightarrow> int \<Rightarrow> Tensor \<times> int) \<Rightarrow> int
     \<Rightarrow> error + (IValue list \<times> int)" where
  "foreachTensorInplace args idx end_idx func cnt =
     (if idx < end_idx then
        (if idx < 0 \<or> int (length args) \<le> idx then Inl OutOfRange
         else (case args ! nat idx of
                 IValueTensor t \<Rightarrow>
                   foreachTensorInplace (args[nat idx := IValueTensor (fst (func t cnt))])
                     (idx + 1) end_idx func (snd (func t cnt))
               | IValueOther x \<Rightarrow> foreachTensorInplace args (idx + 1) end_idx func cnt))
      else Inr (args, cnt))"
  by pat_completeness auto
termination
  by (relation "measure (\<lambda>(args, idx, end_idx, func, cnt). nat (end_idx - idx))") auto

declare foreachTensorInplace.simps [simp del]

text \<open>
  \<open>dead_tensor_wrapper_fallback\<close>. \<open>stack->size() - args_size\<close> is computed in \<open>size_t\<close> and
  passed as \<open>int64_t\<close>: the difference of the two numbers, negative when the stack is
  shorter than the argument list. The result is the call the function ends with.
\<close>

definition dead_tensor_wrapper_fallback ::
  "world \<Rightarrow> OperatorHandle \<Rightarrow> IValue list \<Rightarrow> error + effect" where
  "dead_tensor_wrapper_fallback w op stack =
     (let args_size = arguments_size op in
      case foreachTensorInplace stack (int (length stack) - int args_size) (int (length stack))
             (unwrapIfDeadAndIncrement w) 0 of
        Inl e \<Rightarrow> Inl e
      | Inr (stack', unwrapped_count) \<Rightarrow>
          if \<not> unwrapped_count > 0
          then Inl (InternalAssert ''Should have at least one dead wrapper'')
          else Inr (CallBoxed op stack'))"

subsection \<open>The copy handler\<close>

text \<open>
  \<open>copy_wrapper_tensor_\<close>: the effects it has and the tensor it returns. On the last line
  it returns what \<open>copy_\<close>, called on the underlying value of \<open>self\<close>, returns.
\<close>

definition copy_wrapper_tensor ::
  "world \<Rightarrow> Tensor \<Rightarrow> Tensor \<Rightarrow> bool \<Rightarrow> effect list \<times> Tensor" where
  "copy_wrapper_tensor w self src non_blocking =
     (case (maybeGetTensorWrapper self, maybeGetTensorWrapper src) of
        (Some self_impl, Some src_impl) \<Rightarrow>
          if level w self_impl \<noteq> level w src_impl then ([Warn], self)
          else ([Copy (value self_impl) (value src_impl) non_blocking],
                Tensor_copy w (value self_impl) (value src_impl) non_blocking)
      | _ \<Rightarrow> ([Warn], self))"

subsection \<open>Notions used to state the properties\<close>

text \<open>A call fails when it ends in an assertion instead of a result.\<close>

definition fails :: "error + 'a \<Rightarrow> bool" where
  "fails r = (case r of Inl e \<Rightarrow> True | Inr x \<Rightarrow> False)"

text \<open>The tensor is a wrapper that is alive and whose level is not below \<open>l\<close>.\<close>

definition alive_wrapper_not_below :: "world \<Rightarrow> Tensor \<Rightarrow> int \<Rightarrow> bool" where
  "alive_wrapper_not_below w v l =
     (case maybeGetTensorWrapper v of
        None \<Rightarrow> False
      | Some wrapped \<Rightarrow> is_alive w wrapped \<and> \<not> level_m wrapped < l)"

text \<open>Wrapping at one level, then wrapping the result at another.\<close>

definition wrap_twice :: "world \<Rightarrow> Tensor \<Rightarrow> int \<Rightarrow> int \<Rightarrow> error + Tensor" where
  "wrap_twice w v la lb =
     (case makeTensorWrapper w v la of
        Inl e \<Rightarrow> Inl e
      | Inr r \<Rightarrow> makeTensorWrapper w r lb)"

text \<open>
  The operand is a dead wrapper (then the wrapper is returned), and the substitution the
  spec describes for the fallback: "each dead proxy operand is replaced by its underlying
  value (alive proxies and non-proxy operands pass through unchanged)".
\<close>

definition dead_wrapper :: "world \<Rightarrow> IValue \<Rightarrow> TensorWrapper option" where
  "dead_wrapper w iv =
     (case iv of
        IValueTensor t \<Rightarrow>
          (case maybeGetTensorWrapper t of
             None \<Rightarrow> None
           | Some tw \<Rightarrow> if is_alive w tw then None else Some tw)
      | IValueOther x \<Rightarrow> None)"

definition is_dead_operand :: "world \<Rightarrow> IValue \<Rightarrow> bool" where
  "is_dead_operand w iv = (dead_wrapper w iv \<noteq> None)"

definition substitute_dead :: "world \<Rightarrow> IValue \<Rightarrow> IValue" where
  "substitute_dead w iv =
     (case dead_wrapper w iv of
        None \<Rightarrow> iv
      | Some tw \<Rightarrow> IValueTensor (value tw))"

text \<open>
  What can happen to the world between two observations of a wrapper: the transformation
  stack marks a handle dead or creates one, and the factory functions of the file run
  (only \<open>makeTensorWrapperPtr\<close>, directly or through \<open>shallow_copy_and_detach\<close>, touches
  the store: it allocates a flag that is false).
\<close>

datatype action =
    MarkDead nat
  | Create
  | MakeTensorWrapper Tensor int
  | MakeTensorWrapperPtr Tensor int bool
  | ShallowCopyAndDetach TensorWrapper nat bool

fun step :: "action \<Rightarrow> world \<Rightarrow> world" where
  "step (MarkDead h) w = markDead h w"
| "step Create w = fst (create w)"
| "step (MakeTensorWrapper t l) w = w"
| "step (MakeTensorWrapperPtr t l b) w =
     (case makeTensorWrapperPtr w t l b of Inl e \<Rightarrow> w | Inr (w', tw) \<Rightarrow> w')"
| "step (ShallowCopyAndDetach tw vc am) w =
     (case shallow_copy_and_detach w tw vc am of Inl e \<Rightarrow> w | Inr (w', tw') \<Rightarrow> w')"

fun run :: "action list \<Rightarrow> world \<Rightarrow> world" where
  "run [] w = w"
| "run (a # as) w = run as (step a w)"

text \<open>
  Modelled from the spec: \<open>getKeysToPropagateToWrapper\<close> is not defined in the file. The
  spec: it "intersects/filters the input value's own tag set against a caller-supplied
  ... mask".
\<close>

definition spec_getKeysToPropagateToWrapper :: "Tensor \<Rightarrow> DispatchKey set \<Rightarrow> DispatchKey set" where
  "spec_getKeysToPropagateToWrapper tensor to_propagate = key_set tensor \<inter> to_propagate"

subsection \<open>A concrete world and concrete tensors\<close>

text \<open>
  Twelve handles are allocated, the first eight alive; the transformation at level \<open>l\<close>
  owns handle \<open>l\<close>; the backend key 0 propagates; the element count is the product of
  the sizes; no contiguity flag is kept; and \<open>copy_\<close> returns the tensor it is called on,
  as the in-place methods of \<open>at::Tensor\<close> do.
\<close>

definition example_world :: world where
  "example_world =
     \<lparr>flags = (\<lambda>h. h < 8), next_handle = 12, getLifeHandleForLevel = (\<lambda>l. nat l),
      kKeysToPropagateToWrapper = {Key (BackendKey 0)},
      getKeysToPropagateToWrapper = spec_getKeysToPropagateToWrapper,
      refresh_numel = (\<lambda>sas. prod_list (map fst sas)),
      refresh_contiguous = (\<lambda>sas. []),
      Tensor_copy = (\<lambda>self src non_blocking. self)\<rparr>"

definition example_A :: Tensor where
  "example_A = Plain {BackendKey 0} [(2, 3), (3, 1)] 0 7"

definition example_B :: Tensor where
  "example_B = Plain {BackendKey 0} [(2, 3), (3, 1)] 0 9"

text \<open>What wrapping a plain tensor at a level gives in \<open>example_world\<close>.\<close>

definition example_wrapper :: "Tensor \<Rightarrow> int \<Rightarrow> nat \<Rightarrow> TensorWrapper" where
  "example_wrapper v l h =
     TensorWrapper {kGradWrapperKey, Key (BackendKey 0)} v l h [(2, 3), (3, 1)] 0 6 [] True 0 True"

text \<open>
  A wrapper of \<open>example_A\<close> at level 1 that is alive, one of \<open>example_B\<close> at the same level,
  a wrapper of \<open>example_B\<close> made at level 5 with a flag of its own that is false, and a
  wrapper of \<open>example_A\<close> made at level 1 with a flag of its own that is false.
\<close>

definition example_alive :: TensorWrapper where
  "example_alive = example_wrapper example_A 1 1"

definition example_alive_B :: TensorWrapper where
  "example_alive_B = example_wrapper example_B 1 1"

definition example_dead :: TensorWrapper where
  "example_dead = example_wrapper example_B 5 9"

definition example_dead_A :: TensorWrapper where
  "example_dead_A = example_wrapper example_A 1 10"

definition example_op :: OperatorHandle where
  "example_op = OperatorHandle ''aten::add'' 3"

definition example_stack :: "IValue list" where
  "example_stack =
     [IValueOther 3, IValueTensor (Wrap example_dead), IValueTensor example_A,
      IValueTensor (Wrap example_alive)]"


section \<open>Properties\<close>

subsection \<open>Basic facts\<close>

lemma fails_simps [simp]: "fails (Inl e)" "\<not> fails (Inr x)"
  by (simp_all add: fails_def)

lemma maybeGet_simps [simp]:
  "maybeGetTensorWrapper Undefined = None"
  "maybeGetTensorWrapper (Plain ks sas off st) = None"
  "maybeGetTensorWrapper (Wrap tw) = (if kGradWrapperKey \<in> key_set_m tw then Some tw else None)"
  by (auto simp: maybeGetTensorWrapper_def)

lemma wrapper_key_set_has [simp]: "kGradWrapperKey \<in> wrapper_key_set w v"
  by (simp add: wrapper_key_set_def Let_def)

subsection \<open>The metadata loop\<close>

lemma refresh_loop_done: "\<not> i < d \<Longrightarrow> refresh_loop i d szs strs sas = sas"
  by (simp add: refresh_loop.simps)

lemma refresh_loop_step:
  "i < d \<Longrightarrow> refresh_loop i d szs strs sas =
     refresh_loop (Suc i) d szs strs (sas[i := (szs ! i, strs ! i)])"
  by (subst refresh_loop.simps) simp

text \<open>
  Started at \<open>i\<close> on a mirror of the right length, the loop keeps the entries below \<open>i\<close>
  and copies the rest from the value.
\<close>

lemma refresh_loop_mirror:
  assumes "length ps = d" "length sas = d" "i \<le> d"
  shows "refresh_loop i d (map fst ps) (map snd ps) sas = take i sas @ drop i ps"
  using assms
proof (induction i d "map fst ps" "map snd ps" sas rule: refresh_loop.induct)
  case (1 i d sas)
  show ?case
  proof (cases "i < d")
    case True
    have len: "length (sas[i := (map fst ps ! i, map snd ps ! i)]) = d"
      using "1.prems" by simp
    have "refresh_loop i d (map fst ps) (map snd ps) sas =
          take (Suc i) (sas[i := (map fst ps ! i, map snd ps ! i)]) @ drop (Suc i) ps"
      using "1.hyps" [OF True "1.prems"(1) len] True refresh_loop_step [OF True]
      by simp
    also have "take (Suc i) (sas[i := (map fst ps ! i, map snd ps ! i)]) = take i sas @ [ps ! i]"
      using True "1.prems" by (simp add: take_Suc_conv_app_nth)
    also have "(take i sas @ [ps ! i]) @ drop (Suc i) ps = take i sas @ drop i ps"
      using True "1.prems" by (simp add: Cons_nth_drop_Suc)
    finally show ?thesis .
  next
    case False
    then show ?thesis using "1.prems" by (simp add: refresh_loop_done)
  qed
qed

lemma resize_length [simp]: "length (resize sas n) = n"
  by (simp add: resize_def)

subsection \<open>The constructor and the factory functions in closed form\<close>

lemma ctor_eq:
  "defined v \<Longrightarrow> TensorWrapper_ctor w ks v l h True =
     Inr (TensorWrapper ks v l h (tensor_sizes_and_strides v) (storage_offset v)
            (refresh_numel w (tensor_sizes_and_strides v))
            (refresh_contiguous w (tensor_sizes_and_strides v)) True 0 True)"
  by (simp add: TensorWrapper_ctor_def TensorImpl_init_def Let_def dim_def sizes_def strides_def
      refresh_loop_mirror)

lemma ctor_fails_iff:
  "fails (TensorWrapper_ctor w ks v l h b) \<longleftrightarrow> \<not> defined v \<or> \<not> b"
  by (simp add: TensorWrapper_ctor_def)

lemma ctor_fields:
  assumes "TensorWrapper_ctor w ks v l h b = Inr tw"
  shows "key_set_m tw = ks" "value_m tw = v" "level_m tw = l" "is_alive_m tw = h"
proof -
  have "defined v" "b"
    using assms ctor_fails_iff [of w ks v l h b] by auto
  then show "key_set_m tw = ks" "value_m tw = v" "level_m tw = l" "is_alive_m tw = h"
    using assms by (auto simp: ctor_eq)
qed

lemma makeTensorWrapper_eq:
  assumes "defined v" "\<not> alive_wrapper_not_below w v l"
  shows "makeTensorWrapper w v l =
     Inr (Wrap (TensorWrapper (wrapper_key_set w v) v l (getLifeHandleForLevel w l)
            (tensor_sizes_and_strides v) (storage_offset v)
            (refresh_numel w (tensor_sizes_and_strides v))
            (refresh_contiguous w (tensor_sizes_and_strides v)) True 0 True))"
  using assms
  by (auto simp: makeTensorWrapper_def alive_wrapper_not_below_def level_def ctor_eq
      split: option.splits)

lemma makeTensorWrapper_fails_iff:
  "fails (makeTensorWrapper w v l) \<longleftrightarrow> \<not> defined v \<or> alive_wrapper_not_below w v l"
proof (cases "TensorWrapper_ctor w (wrapper_key_set w v) v l (getLifeHandleForLevel w l) True")
  case (Inl e)
  then have "\<not> defined v"
    using ctor_fails_iff [of w "wrapper_key_set w v" v l "getLifeHandleForLevel w l" True]
    by simp
  then show ?thesis
    using Inl by (simp add: makeTensorWrapper_def split: option.splits)
next
  case (Inr tw)
  then have d: "defined v"
    using ctor_fails_iff [of w "wrapper_key_set w v" v l "getLifeHandleForLevel w l" True]
    by simp
  have k: "kGradWrapperKey \<in> key_set_m tw"
    using ctor_fields(1) [OF Inr] by simp
  show ?thesis
    using Inr d k
    by (simp add: makeTensorWrapper_def alive_wrapper_not_below_def level_def
        split: option.splits)
qed

lemma makeTensorWrapper_result:
  assumes "makeTensorWrapper w v l = Inr r"
  shows "\<exists>tw. r = Wrap tw \<and> key_set_m tw = wrapper_key_set w v \<and> value_m tw = v
           \<and> level_m tw = l \<and> is_alive_m tw = getLifeHandleForLevel w l"
  using assms
  by (auto simp: makeTensorWrapper_def dest: ctor_fields split: option.splits sum.splits if_splits)

lemma makeTensorWrapperPtr_result:
  assumes "makeTensorWrapperPtr w v l b = Inr (w', tw)"
  shows "key_set_m tw = wrapper_key_set w v" "value_m tw = v" "level_m tw = l"
    "is_alive_m tw = (if b then getLifeHandleForLevel w l else next_handle w)"
    "w' = (if b then w else w\<lparr>flags := (flags w)(next_handle w := False),
                               next_handle := Suc (next_handle w)\<rparr>)"
  using assms
  by (auto simp: makeTensorWrapperPtr_def Let_def dest: ctor_fields split: if_splits sum.splits)

lemma makeTensorWrapperPtr_succeeds:
  assumes "defined v"
  shows "\<exists>w' tw. makeTensorWrapperPtr w v l b = Inr (w', tw)"
  using assms by (simp add: makeTensorWrapperPtr_def Let_def ctor_eq)

subsection \<open>The concrete world\<close>

lemma example_key_set:
  "wrapper_key_set example_world (Plain {BackendKey 0} sas off st) =
     {kGradWrapperKey, Key (BackendKey 0)}"
  by (auto simp: wrapper_key_set_def example_world_def autograd_keys_def
      spec_getKeysToPropagateToWrapper_def)

lemma example_wrapped:
  "makeTensorWrapper example_world (Plain {BackendKey 0} [(2, 3), (3, 1)] 0 st) l =
     Inr (Wrap (example_wrapper (Plain {BackendKey 0} [(2, 3), (3, 1)] 0 st) l (nat l)))"
  by (simp add: makeTensorWrapper_eq alive_wrapper_not_below_def example_key_set
      example_wrapper_def) (simp add: example_world_def)

lemma example_simps:
  "key_set_m (example_wrapper v l h) = {kGradWrapperKey, Key (BackendKey 0)}"
  "value_m (example_wrapper v l h) = v"
  "level_m (example_wrapper v l h) = l"
  "is_alive_m (example_wrapper v l h) = h"
  by (simp_all add: example_wrapper_def)

lemma example_alive_ctor:
  "TensorWrapper_ctor example_world {kGradWrapperKey, Key (BackendKey 0)} example_A 1 1 True =
     Inr example_alive"
  by (simp add: ctor_eq example_A_def example_alive_def example_wrapper_def)
     (simp add: example_world_def)


subsection \<open>Construction\<close>

text \<open>
  C1 (as amended). The constructor fails exactly when the underlying tensor is undefined
  or the use-value-sizes-and-strides flag is false. \<open>makeTensorWrapper\<close> fails exactly when
  the underlying tensor is undefined or is a wrapper that is alive and whose level is
  not strictly less than the new level: the level of a dead wrapper is absent, and an
  absent level is less than every level. For \<open>l1 < l2\<close>: if wrapping \<open>v\<close> at \<open>l1\<close> succeeds,
  wrapping the result at \<open>l2\<close> succeeds; and if the handle of level \<open>l2\<close> is alive, wrapping
  at \<open>l2\<close> and then at \<open>l1\<close> fails, the second wrapping by the level assertion.
\<close>

theorem makeTensorWrapper_assertions:
  assumes "l1 < l2"
  shows "(fails (TensorWrapper_ctor w ks v l h b) \<longleftrightarrow> \<not> defined v \<or> \<not> b)
    \<and> (fails (makeTensorWrapper w v l) \<longleftrightarrow> \<not> defined v \<or> alive_wrapper_not_below w v l)
    \<and> (\<not> fails (makeTensorWrapper w v l1) \<longrightarrow> \<not> fails (wrap_twice w v l1 l2))
    \<and> (flags w (getLifeHandleForLevel w l2) \<longrightarrow> fails (wrap_twice w v l2 l1))
    \<and> (flags w (getLifeHandleForLevel w l2) \<and> \<not> fails (makeTensorWrapper w v l2) \<longrightarrow>
         wrap_twice w v l2 l1 = Inl (InternalAssert ''wrapped->level() < level''))"
proof -
  have a: "\<not> fails (wrap_twice w v l1 l2)" if "\<not> fails (makeTensorWrapper w v l1)"
  proof -
    from that obtain r where r: "makeTensorWrapper w v l1 = Inr r"
      by (cases "makeTensorWrapper w v l1") auto
    then obtain tw where tw: "r = Wrap tw" "key_set_m tw = wrapper_key_set w v" "level_m tw = l1"
      using makeTensorWrapper_result by blast
    have "\<not> alive_wrapper_not_below w r l2"
      using tw assms by (simp add: alive_wrapper_not_below_def)
    then have "\<not> fails (makeTensorWrapper w r l2)"
      using tw by (simp add: makeTensorWrapper_fails_iff)
    then show ?thesis by (simp add: wrap_twice_def r)
  qed
  have b: "wrap_twice w v l2 l1 = Inl (InternalAssert ''wrapped->level() < level'')"
    if "flags w (getLifeHandleForLevel w l2)" "\<not> fails (makeTensorWrapper w v l2)"
  proof -
    from that obtain r where r: "makeTensorWrapper w v l2 = Inr r"
      by (cases "makeTensorWrapper w v l2") auto
    then obtain tw where tw: "r = Wrap tw" "key_set_m tw = wrapper_key_set w v" "level_m tw = l2"
       "is_alive_m tw = getLifeHandleForLevel w l2"
      using makeTensorWrapper_result by blast
    have "makeTensorWrapper w r l1 = Inl (InternalAssert ''wrapped->level() < level'')"
      using tw assms that(1)
      by (simp add: makeTensorWrapper_def level_def is_alive_def)
    then show ?thesis by (simp add: wrap_twice_def r)
  qed
  have c: "fails (wrap_twice w v l2 l1)" if "flags w (getLifeHandleForLevel w l2)"
  proof (cases "fails (makeTensorWrapper w v l2)")
    case True
    then show ?thesis by (cases "makeTensorWrapper w v l2") (auto simp: wrap_twice_def)
  next
    case False
    then show ?thesis using b that by simp
  qed
  show ?thesis
    using a b c ctor_fails_iff makeTensorWrapper_fails_iff by blast
qed

theorem makeTensorWrapper_assertions_witness:
  "(1::int) < 2
   \<and> \<not> fails (wrap_twice example_world example_A 1 2)
   \<and> fails (wrap_twice example_world example_A 2 1)
   \<and> wrap_twice example_world example_A 2 1 = Inl (InternalAssert ''wrapped->level() < level'')"
proof -
  have l: "(1::int) < 2" by simp
  have f: "flags example_world (getLifeHandleForLevel example_world 2)"
    by (simp add: example_world_def)
  have s: "\<not> fails (makeTensorWrapper example_world example_A l)" for l
    by (simp add: example_A_def example_wrapped)
  show ?thesis
    using makeTensorWrapper_assertions [OF l, of example_world "{}" example_A 1 0 True] f s
    by simp
qed

text \<open>
  The claim as stated fails. Not every value can be wrapped at \<open>l1\<close> and then at \<open>l2\<close>: an
  undefined tensor cannot be wrapped at level 1, nor can an alive wrapper of level 5.
  And a tensor wrapped at level 2 can be wrapped at level 1 once the handle of level 2 is
  dead: the inner level 2 is not less than 1, and no assertion fails.
\<close>

theorem makeTensorWrapper_dead_inner_counterexample:
  "fails (makeTensorWrapper example_world Undefined 1)
   \<and> makeTensorWrapper example_world example_A 5 = Inr (Wrap (example_wrapper example_A 5 5))
   \<and> fails (makeTensorWrapper example_world (Wrap (example_wrapper example_A 5 5)) 1)
   \<and> makeTensorWrapper example_world example_A 2 = Inr (Wrap (example_wrapper example_A 2 2))
   \<and> level_m (example_wrapper example_A 2 2) = 2
   \<and> makeTensorWrapper (markDead 2 example_world) (Wrap (example_wrapper example_A 2 2)) 1 =
       Inr (Wrap (example_wrapper (Wrap (example_wrapper example_A 2 2)) 1 1))"
proof -
  have 1: "fails (makeTensorWrapper example_world Undefined 1)"
    by (simp add: makeTensorWrapper_fails_iff)
  have 5: "makeTensorWrapper example_world example_A 5 = Inr (Wrap (example_wrapper example_A 5 5))"
    using example_wrapped [of 7 5] by (simp add: example_A_def)
  have 6: "fails (makeTensorWrapper example_world (Wrap (example_wrapper example_A 5 5)) 1)"
    by (simp add: makeTensorWrapper_fails_iff alive_wrapper_not_below_def example_simps
        is_alive_def example_world_def)
  have 2: "makeTensorWrapper example_world example_A 2 = Inr (Wrap (example_wrapper example_A 2 2))"
    using example_wrapped [of 7 2] by (simp add: example_A_def)
  have 3: "level_m (example_wrapper example_A 2 2) = 2"
    by (simp add: example_wrapper_def)
  have d: "\<not> alive_wrapper_not_below (markDead 2 example_world) (Wrap (example_wrapper example_A 2 2)) 1"
    by (simp add: alive_wrapper_not_below_def example_wrapper_def is_alive_def markDead_def)
  have k: "wrapper_key_set (markDead 2 example_world) (Wrap (example_wrapper example_A 2 2)) =
      {kGradWrapperKey, Key (BackendKey 0)}"
    by (auto simp: wrapper_key_set_def markDead_def example_world_def autograd_keys_def
        spec_getKeysToPropagateToWrapper_def example_wrapper_def)
  have 4: "makeTensorWrapper (markDead 2 example_world) (Wrap (example_wrapper example_A 2 2)) 1 =
       Inr (Wrap (example_wrapper (Wrap (example_wrapper example_A 2 2)) 1 1))"
    by (simp add: makeTensorWrapper_eq [OF _ d] k)
      (simp add: example_wrapper_def markDead_def example_world_def)
  show ?thesis using 1 5 6 2 3 4 by simp
qed

subsection \<open>The unsupported methods\<close>

text \<open>
  C7. \<open>set_size\<close>, \<open>set_stride\<close>, \<open>set_storage_offset\<close> and \<open>shallow_copy_from\<close> fail with an
  internal assertion for every wrapper and all arguments: none returns a wrapper,
  changed or not.
\<close>

theorem unsupported_methods_fail:
  "set_size this d new_size = Inl (InternalAssert ''Can't set_size for TensorWrapper'')
   \<and> set_stride this d new_stride = Inl (InternalAssert ''Can't set_stride for TensorWrapper'')
   \<and> set_storage_offset this off =
       Inl (InternalAssert ''Can't set_storage_offset for TensorWrapper'')
   \<and> shallow_copy_from this impl = Inl (InternalAssert ''NYI'')
   \<and> fails (set_size this d new_size) \<and> fails (set_stride this d new_stride)
   \<and> fails (set_storage_offset this off) \<and> fails (shallow_copy_from this impl)"
  by (simp add: set_size_def set_stride_def set_storage_offset_def shallow_copy_from_def)

subsection \<open>Mirrored metadata\<close>

text \<open>
  C6. For every wrapper \<open>p\<close> that the constructor returns, the mirrored sizes, strides and
  storage offset are those of \<open>p.value()\<close>, and the element count and the contiguity
  flags are what \<open>refresh_numel\<close> and \<open>refresh_contiguous\<close> compute from the sizes and
  strides of \<open>p.value()\<close>; so the accessors of the wrapper answer as those of its value.
\<close>

theorem metadata_mirrors_value:
  assumes "TensorWrapper_ctor w ks v l h b = Inr p"
  shows "value p = v
    \<and> map fst (sizes_and_strides_m p) = sizes (value p)
    \<and> map snd (sizes_and_strides_m p) = strides (value p)
    \<and> length (sizes_and_strides_m p) = dim (value p)
    \<and> storage_offset_m p = storage_offset (value p)
    \<and> numel_m p = refresh_numel w (tensor_sizes_and_strides (value p))
    \<and> contiguity_m p = refresh_contiguous w (tensor_sizes_and_strides (value p))
    \<and> sizes (Wrap p) = sizes (value p) \<and> strides (Wrap p) = strides (value p)
    \<and> storage_offset (Wrap p) = storage_offset (value p)"
proof -
  have "defined v" "b"
    using assms ctor_fails_iff [of w ks v l h b] by auto
  then have "p = TensorWrapper ks v l h (tensor_sizes_and_strides v) (storage_offset v)
            (refresh_numel w (tensor_sizes_and_strides v))
            (refresh_contiguous w (tensor_sizes_and_strides v)) True 0 True"
    using assms by (simp add: ctor_eq)
  then show ?thesis
    by (simp add: value_def sizes_def strides_def dim_def)
qed

theorem metadata_mirrors_value_witness:
  "TensorWrapper_ctor example_world {kGradWrapperKey} example_A 1 1 True =
      Inr (TensorWrapper {kGradWrapperKey} example_A 1 1 [(2, 3), (3, 1)] 0 6 [] True 0 True)
   \<and> sizes example_A = [2, 3] \<and> strides example_A = [3, 1]
   \<and> map fst (sizes_and_strides_m
        (TensorWrapper {kGradWrapperKey} example_A 1 1 [(2, 3), (3, 1)] 0 6 [] True 0 True)) =
       sizes (value
        (TensorWrapper {kGradWrapperKey} example_A 1 1 [(2, 3), (3, 1)] 0 6 [] True 0 True))"
proof -
  have e: "TensorWrapper_ctor example_world {kGradWrapperKey} example_A 1 1 True =
      Inr (TensorWrapper {kGradWrapperKey} example_A 1 1 [(2, 3), (3, 1)] 0 6 [] True 0 True)"
    by (simp add: ctor_eq example_A_def example_world_def)
  have s: "sizes example_A = [2, 3] \<and> strides example_A = [3, 1]"
    by (simp add: sizes_def strides_def example_A_def)
  show ?thesis
    using metadata_mirrors_value [OF e] e s by simp
qed

subsection \<open>The key set of a wrapper\<close>

text \<open>
  C5 (as amended). The key set that \<open>makeTensorWrapper\<close> and \<open>makeTensorWrapperPtr\<close> give a
  wrapper is the same function of the wrapped tensor: what \<open>getKeysToPropagateToWrapper\<close>
  returns for the tensor and the mask \<open>kKeysToPropagateToWrapper\<close> joined with the three
  autograd keys, plus \<open>kGradWrapperKey\<close>. The autograd keys widen the mask; they are not
  added to the result. With the filter the spec describes, the key set is the tensor's
  own keys inside that mask plus \<open>kGradWrapperKey\<close>, and a wrapper carries an autograd key
  exactly when the wrapped tensor does. Every wrapper carries \<open>kGradWrapperKey\<close>.
\<close>

theorem wrapper_key_set_computed:
  "(makeTensorWrapper w v l = Inr r \<longrightarrow>
      key_set r = insert kGradWrapperKey
        (getKeysToPropagateToWrapper w v (kKeysToPropagateToWrapper w \<union> autograd_keys))
      \<and> kGradWrapperKey \<in> key_set r)
   \<and> (makeTensorWrapperPtr w v l b = Inr (w', tw) \<longrightarrow>
      key_set (Wrap tw) = insert kGradWrapperKey
        (getKeysToPropagateToWrapper w v (kKeysToPropagateToWrapper w \<union> autograd_keys))
      \<and> kGradWrapperKey \<in> key_set (Wrap tw))
   \<and> (getKeysToPropagateToWrapper w = spec_getKeysToPropagateToWrapper
        \<and> makeTensorWrapper w v l = Inr r \<longrightarrow>
      key_set r = insert kGradWrapperKey
        (key_set v \<inter> (kKeysToPropagateToWrapper w \<union> autograd_keys))
      \<and> ((Key AutogradCPU \<in> key_set r \<longleftrightarrow> Key AutogradCPU \<in> key_set v)
      \<and> (Key AutogradCUDA \<in> key_set r \<longleftrightarrow> Key AutogradCUDA \<in> key_set v)
      \<and> (Key AutogradXLA \<in> key_set r \<longleftrightarrow> Key AutogradXLA \<in> key_set v)))"
  (is "(?M \<longrightarrow> ?A \<and> ?E) \<and> (?P \<longrightarrow> ?B \<and> ?F) \<and> (?G \<and> ?M \<longrightarrow> ?C \<and> ?D)")
proof -
  have a: "key_set r = insert kGradWrapperKey
        (getKeysToPropagateToWrapper w v (kKeysToPropagateToWrapper w \<union> autograd_keys))"
    if m: "makeTensorWrapper w v l = Inr r"
  proof -
    obtain x where "r = Wrap x" "key_set_m x = wrapper_key_set w v"
      using makeTensorWrapper_result [OF m] by blast
    then show ?thesis by (simp add: wrapper_key_set_def Let_def)
  qed
  have b: "key_set (Wrap tw) = insert kGradWrapperKey
        (getKeysToPropagateToWrapper w v (kKeysToPropagateToWrapper w \<union> autograd_keys))"
    if "makeTensorWrapperPtr w v l b = Inr (w', tw)"
    using makeTensorWrapperPtr_result(1) [OF that] by (simp add: wrapper_key_set_def Let_def)
  have c: "key_set r = insert kGradWrapperKey
        (key_set v \<inter> (kKeysToPropagateToWrapper w \<union> autograd_keys))"
    if "getKeysToPropagateToWrapper w = spec_getKeysToPropagateToWrapper"
      "makeTensorWrapper w v l = Inr r"
    using a [OF that(2)] by (simp add: that(1) spec_getKeysToPropagateToWrapper_def)
  have d: "(Key AutogradCPU \<in> key_set r \<longleftrightarrow> Key AutogradCPU \<in> key_set v)
      \<and> (Key AutogradCUDA \<in> key_set r \<longleftrightarrow> Key AutogradCUDA \<in> key_set v)
      \<and> (Key AutogradXLA \<in> key_set r \<longleftrightarrow> Key AutogradXLA \<in> key_set v)"
    if "getKeysToPropagateToWrapper w = spec_getKeysToPropagateToWrapper"
      "makeTensorWrapper w v l = Inr r"
    by (simp add: c [OF that] autograd_keys_def)
  have e: "kGradWrapperKey \<in> key_set r" if "makeTensorWrapper w v l = Inr r"
    by (simp add: a [OF that])
  have f: "kGradWrapperKey \<in> key_set (Wrap tw)" if "makeTensorWrapperPtr w v l b = Inr (w', tw)"
    using b [OF that] by simp
  have 1: "?M \<longrightarrow> ?A \<and> ?E"
  proof
    assume m: ?M
    show "?A \<and> ?E" using a [OF m] e [OF m] by (rule conjI)
  qed
  have 2: "?P \<longrightarrow> ?B \<and> ?F"
  proof
    assume p: ?P
    show "?B \<and> ?F" using b [OF p] f [OF p] by (rule conjI)
  qed
  have 3: "?G \<and> ?M \<longrightarrow> ?C \<and> ?D"
  proof
    assume "?G \<and> ?M"
    then have g: ?G and m: ?M by (rule conjunct1, rule conjunct2)
    show "?C \<and> ?D" using c [OF g m] d [OF g m] by (rule conjI)
  qed
  show ?thesis
    using 1 conjI [OF 2 3] by (rule conjI)
qed

theorem wrapper_key_set_computed_witness:
  "makeTensorWrapper example_world example_A 1 = Inr (Wrap (example_wrapper example_A 1 1))
   \<and> getKeysToPropagateToWrapper example_world = spec_getKeysToPropagateToWrapper
   \<and> key_set (Wrap (example_wrapper example_A 1 1)) =
       insert kGradWrapperKey
         (key_set example_A \<inter> (kKeysToPropagateToWrapper example_world \<union> autograd_keys))
   \<and> kGradWrapperKey \<in> key_set (Wrap (example_wrapper example_A 1 1))"
proof -
  have e: "makeTensorWrapper example_world example_A 1 = Inr (Wrap (example_wrapper example_A 1 1))"
    using example_wrapped [of 7 1] by (simp add: example_A_def)
  have g: "getKeysToPropagateToWrapper example_world = spec_getKeysToPropagateToWrapper"
    by (simp add: example_world_def)
  show ?thesis
    using wrapper_key_set_computed [of example_world example_A 1 "Wrap (example_wrapper example_A 1 1)"
        True example_world "example_wrapper example_A 1 1"] e g
    by (simp add: spec_getKeysToPropagateToWrapper_def)
qed

text \<open>
  The claim as stated fails: a tensor whose only key is the backend key 0 is wrapped into
  a wrapper with the keys \<open>kGradWrapperKey\<close> and backend key 0, without any autograd key.
\<close>

theorem autograd_keys_not_added_counterexample:
  "makeTensorWrapper example_world example_A 1 = Inr (Wrap (example_wrapper example_A 1 1))
   \<and> key_set (Wrap (example_wrapper example_A 1 1)) = {kGradWrapperKey, Key (BackendKey 0)}
   \<and> Key AutogradCUDA \<notin> key_set (Wrap (example_wrapper example_A 1 1))
   \<and> key_set (Wrap (example_wrapper example_A 1 1)) \<noteq>
       spec_getKeysToPropagateToWrapper example_A (kKeysToPropagateToWrapper example_world)
         \<union> autograd_keys \<union> {kGradWrapperKey}"
proof -
  have e: "makeTensorWrapper example_world example_A 1 = Inr (Wrap (example_wrapper example_A 1 1))"
    using example_wrapped [of 7 1] by (simp add: example_A_def)
  have k: "key_set (Wrap (example_wrapper example_A 1 1)) = {kGradWrapperKey, Key (BackendKey 0)}"
    by (simp add: example_wrapper_def)
  have n: "Key AutogradCUDA \<notin> key_set (Wrap (example_wrapper example_A 1 1))"
    by (simp add: example_wrapper_def)
  have "Key AutogradCUDA \<in> spec_getKeysToPropagateToWrapper example_A (kKeysToPropagateToWrapper example_world)
         \<union> autograd_keys \<union> {kGradWrapperKey}"
    by (simp add: autograd_keys_def)
  then have d: "key_set (Wrap (example_wrapper example_A 1 1)) \<noteq>
       spec_getKeysToPropagateToWrapper example_A (kKeysToPropagateToWrapper example_world)
         \<union> autograd_keys \<union> {kGradWrapperKey}"
    using n by metis
  show ?thesis using e k n d by simp
qed

subsection \<open>Construction and the tag check\<close>

text \<open>
  C10. When \<open>makeTensorWrapper(v, l)\<close> succeeds, the result carries \<open>kGradWrapperKey\<close>, and
  \<open>maybeGetTensorWrapper\<close> of the result is a wrapper whose value is \<open>v\<close> and whose stored
  level is \<open>l\<close>. \<open>maybeGetTensorWrapper\<close> returns null exactly when the key set of the tensor
  lacks \<open>kGradWrapperKey\<close>.
\<close>

theorem makeTensorWrapper_roundtrip:
  "(makeTensorWrapper w v l = Inr r \<longrightarrow>
      kGradWrapperKey \<in> key_set r
      \<and> map_option value (maybeGetTensorWrapper r) = Some v
      \<and> map_option level_m (maybeGetTensorWrapper r) = Some l)
   \<and> (maybeGetTensorWrapper t = None \<longleftrightarrow> kGradWrapperKey \<notin> key_set t)"
proof -
  have a: "kGradWrapperKey \<in> key_set r
      \<and> map_option value (maybeGetTensorWrapper r) = Some v
      \<and> map_option level_m (maybeGetTensorWrapper r) = Some l"
    if "makeTensorWrapper w v l = Inr r"
    using makeTensorWrapper_result [OF that] by (auto simp: value_def)
  have b: "maybeGetTensorWrapper t = None \<longleftrightarrow> kGradWrapperKey \<notin> key_set t"
    by (cases t) auto
  show ?thesis using a b by blast
qed

theorem makeTensorWrapper_roundtrip_witness:
  "makeTensorWrapper example_world example_A 1 = Inr (Wrap (example_wrapper example_A 1 1))
   \<and> kGradWrapperKey \<in> key_set (Wrap (example_wrapper example_A 1 1))
   \<and> map_option value (maybeGetTensorWrapper (Wrap (example_wrapper example_A 1 1))) = Some example_A
   \<and> map_option level_m (maybeGetTensorWrapper (Wrap (example_wrapper example_A 1 1))) = Some 1
   \<and> maybeGetTensorWrapper example_A = None \<and> kGradWrapperKey \<notin> key_set example_A"
proof -
  have e: "makeTensorWrapper example_world example_A 1 = Inr (Wrap (example_wrapper example_A 1 1))"
    using example_wrapped [of 7 1] by (simp add: example_A_def)
  have n: "maybeGetTensorWrapper example_A = None"
    by (simp add: example_A_def)
  show ?thesis
    using makeTensorWrapper_roundtrip [of example_world example_A 1
        "Wrap (example_wrapper example_A 1 1)" example_A] e n
    by (simp add: example_wrapper_def value_def)
qed

subsection \<open>The dead-wrapper fallback\<close>

lemma unwrapIfDeadAndIncrement_eq:
  "IValueTensor (fst (unwrapIfDeadAndIncrement w t c)) = substitute_dead w (IValueTensor t)"
  "snd (unwrapIfDeadAndIncrement w t c) = c + (if is_dead_operand w (IValueTensor t) then 1 else 0)"
  by (auto simp: unwrapIfDeadAndIncrement_def substitute_dead_def dead_wrapper_def
      is_dead_operand_def split: option.splits)

lemma substitute_dead_other [simp]:
  "substitute_dead w (IValueOther x) = IValueOther x" "\<not> is_dead_operand w (IValueOther x)"
  by (simp_all add: substitute_dead_def dead_wrapper_def is_dead_operand_def)

text \<open>One turn of the loop: the entry is substituted and the count follows.\<close>

lemma foreach_step:
  assumes "i < e" "e \<le> length args"
  shows "foreachTensorInplace args (int i) (int e) (unwrapIfDeadAndIncrement w) c =
     foreachTensorInplace (args[i := substitute_dead w (args ! i)]) (int (Suc i)) (int e)
       (unwrapIfDeadAndIncrement w) (c + (if is_dead_operand w (args ! i) then 1 else 0))"
proof (cases "args ! i")
  case (IValueTensor t)
  show ?thesis
    using assms IValueTensor unwrapIfDeadAndIncrement_eq [of w t c]
    by (subst foreachTensorInplace.simps) (simp add: add.commute)
next
  case (IValueOther x)
  have "args[i := IValueOther x] = args"
    using IValueOther by (metis list_update_id)
  then show ?thesis
    using assms IValueOther
    by (subst foreachTensorInplace.simps) (simp add: add.commute)
qed

lemma foreach_done:
  "foreachTensorInplace args (int e) (int e) f c = Inr (args, c)"
  by (subst foreachTensorInplace.simps) simp

text \<open>
  The loop from \<open>i\<close> to \<open>e\<close> substitutes exactly the entries in between and counts the
  dead wrappers among them.
\<close>

lemma foreach_unwrap:
  assumes "i \<le> e" "e \<le> length args"
  shows "foreachTensorInplace args (int i) (int e) (unwrapIfDeadAndIncrement w) c =
     Inr (take i args @ map (substitute_dead w) (take (e - i) (drop i args)) @ drop e args,
          c + int (length (filter (is_dead_operand w) (take (e - i) (drop i args)))))"
  using assms
proof (induction "e - i" arbitrary: i args c)
  case 0
  then have "i = e" by simp
  then show ?case by (simp add: foreach_done)
next
  case (Suc n)
  then have lt: "i < e" and le: "e \<le> length args" by simp_all
  let ?args = "args[i := substitute_dead w (args ! i)]"
  let ?c = "c + (if is_dead_operand w (args ! i) then 1 else 0)"
  have n: "n = e - Suc i" using Suc.hyps(2) by simp
  have len: "e \<le> length ?args" using le by simp
  have ih: "foreachTensorInplace ?args (int (Suc i)) (int e) (unwrapIfDeadAndIncrement w) ?c =
     Inr (take (Suc i) ?args @ map (substitute_dead w) (take (e - Suc i) (drop (Suc i) ?args))
            @ drop e ?args,
          ?c + int (length (filter (is_dead_operand w) (take (e - Suc i) (drop (Suc i) ?args)))))"
    using Suc.hyps(1) [OF n _ len] lt by simp
  have t1: "take (Suc i) ?args = take i args @ [substitute_dead w (args ! i)]"
    using lt le by (simp add: take_Suc_conv_app_nth)
  have t2: "drop (Suc i) ?args = drop (Suc i) args" by simp
  have t3: "drop e ?args = drop e args" using lt by simp
  have t4: "take (e - i) (drop i args) = args ! i # take (e - Suc i) (drop (Suc i) args)"
    using lt le by (metis Cons_nth_drop_Suc Suc_diff_Suc less_le_trans take_Suc_Cons)
  show ?case
    unfolding foreach_step [OF lt le] ih t1 t2 t3 t4 by simp
qed

text \<open>
  C2. When the stack holds the arguments of the operator, the fallback replaces, among the
  arguments, every dead wrapper by its underlying value and leaves every other argument
  and the rest of the stack as they are; it ends with one call of \<open>op.callBoxed\<close> on that
  stack when at least one argument was a dead wrapper, and fails the assertion
  otherwise.
\<close>

theorem dead_tensor_wrapper_fallback_substitutes:
  assumes "arguments_size op \<le> length stack"
  shows "dead_tensor_wrapper_fallback w op stack =
    (if list_ex (is_dead_operand w) (drop (length stack - arguments_size op) stack)
     then Inr (CallBoxed op (take (length stack - arguments_size op) stack
                 @ map (substitute_dead w) (drop (length stack - arguments_size op) stack)))
     else Inl (InternalAssert ''Should have at least one dead wrapper''))"
proof -
  let ?k = "length stack - arguments_size op"
  have b: "int (length stack) - int (arguments_size op) = int ?k"
    using assms by simp
  have f: "foreachTensorInplace stack (int ?k) (int (length stack)) (unwrapIfDeadAndIncrement w) 0 =
     Inr (take ?k stack @ map (substitute_dead w) (drop ?k stack),
          int (length (filter (is_dead_operand w) (drop ?k stack))))"
    using foreach_unwrap [of ?k "length stack" stack w 0] by simp
  have c: "0 < int (length (filter (is_dead_operand w) (drop ?k stack))) \<longleftrightarrow>
      list_ex (is_dead_operand w) (drop ?k stack)"
    by (simp add: list_ex_iff filter_empty_conv)
  show ?thesis
    unfolding dead_tensor_wrapper_fallback_def Let_def b f using c by simp
qed

theorem dead_tensor_wrapper_fallback_substitutes_witness:
  "arguments_size example_op \<le> length example_stack
   \<and> dead_tensor_wrapper_fallback example_world example_op example_stack =
       Inr (CallBoxed example_op
             [IValueOther 3, IValueTensor example_B, IValueTensor example_A,
              IValueTensor (Wrap example_alive)])"
proof -
  have h: "arguments_size example_op \<le> length example_stack"
    by (simp add: example_op_def example_stack_def)
  have d: "dead_wrapper example_world (IValueTensor (Wrap example_dead)) = Some example_dead"
    "dead_wrapper example_world (IValueTensor example_A) = None"
    "dead_wrapper example_world (IValueTensor (Wrap example_alive)) = None"
    by (simp_all add: dead_wrapper_def example_dead_def example_alive_def example_A_def
        example_simps is_alive_def example_world_def)
  have v: "value example_dead = example_B"
    by (simp add: value_def example_dead_def example_simps)
  have k: "length example_stack - arguments_size example_op = Suc 0"
    by (simp add: example_op_def example_stack_def)
  have t: "take (Suc 0) example_stack = [IValueOther 3]"
    "drop (Suc 0) example_stack =
       [IValueTensor (Wrap example_dead), IValueTensor example_A, IValueTensor (Wrap example_alive)]"
    by (simp_all add: example_stack_def)
  show ?thesis
    using dead_tensor_wrapper_fallback_substitutes [OF h, of example_world] h
    by (simp add: k t is_dead_operand_def substitute_dead_def d v)
qed

subsection \<open>The copy handler\<close>

text \<open>The two outcomes of the handler.\<close>

lemma copy_wrapper_tensor_not_wrappers:
  "maybeGetTensorWrapper self = None \<or> maybeGetTensorWrapper src = None \<Longrightarrow>
     copy_wrapper_tensor w self src nb = ([Warn], self)"
  by (auto simp: copy_wrapper_tensor_def split: option.splits)

lemma copy_wrapper_tensor_wrappers:
  "maybeGetTensorWrapper self = Some a \<Longrightarrow> maybeGetTensorWrapper src = Some b \<Longrightarrow>
     copy_wrapper_tensor w self src nb =
       (if level w a = level w b
        then ([Copy (value a) (value b) nb], Tensor_copy w (value a) (value b) nb)
        else ([Warn], self))"
  by (simp add: copy_wrapper_tensor_def)

text \<open>
  A wrapper is not its own underlying value, so when \<open>copy_\<close> returns the tensor it was
  called on, the handler does not return \<open>self\<close> after a copy.
\<close>

lemma maybeGet_Some_Wrap: "maybeGetTensorWrapper t = Some a \<Longrightarrow> t = Wrap a"
  by (cases t) (auto split: if_splits)

lemma value_not_self: "value a \<noteq> Wrap a"
proof
  assume "value a = Wrap a"
  then have "size (value_m a) = size (Wrap a)" by (simp add: value_def)
  then show False by (cases a) simp
qed

lemma copy_wrapper_tensor_result_not_self:
  assumes "maybeGetTensorWrapper self = Some a" "maybeGetTensorWrapper src = Some b"
    "level w a = level w b" "Tensor_copy w (value a) (value b) nb = value a"
  shows "snd (copy_wrapper_tensor w self src nb) = value a"
    "snd (copy_wrapper_tensor w self src nb) \<noteq> self"
  using assms maybeGet_Some_Wrap [OF assms(1)] value_not_self [of a]
  by (simp_all add: copy_wrapper_tensor_wrappers)

text \<open>
  C9. The level test of the copy handler compares \<open>level()\<close>, which is absent for a dead
  wrapper. Two dead wrappers compare equal whatever their stored levels, and the copy
  runs on their underlying values without a warning; a dead and an alive wrapper
  compare unequal whatever their stored levels, and the handler warns and returns
  \<open>self\<close>.
\<close>

theorem copy_level_test_is_liveness_sensitive:
  assumes "maybeGetTensorWrapper self = Some a" "maybeGetTensorWrapper src = Some b"
  shows "(\<not> is_alive w a \<and> \<not> is_alive w b \<longrightarrow>
            level w a = level w b
            \<and> copy_wrapper_tensor w self src nb =
                ([Copy (value a) (value b) nb], Tensor_copy w (value a) (value b) nb))
     \<and> (is_alive w a \<noteq> is_alive w b \<longrightarrow>
            level w a \<noteq> level w b \<and> copy_wrapper_tensor w self src nb = ([Warn], self))"
  using assms by (simp add: copy_wrapper_tensor_def level_def)

theorem copy_level_test_is_liveness_sensitive_witness:
  "maybeGetTensorWrapper (Wrap example_dead_A) = Some example_dead_A
   \<and> maybeGetTensorWrapper (Wrap example_dead) = Some example_dead
   \<and> maybeGetTensorWrapper (Wrap example_alive_B) = Some example_alive_B
   \<and> level_m example_dead_A = 1 \<and> level_m example_dead = 5 \<and> level_m example_alive_B = 1
   \<and> \<not> is_alive example_world example_dead_A \<and> \<not> is_alive example_world example_dead
   \<and> is_alive example_world example_alive_B
   \<and> copy_wrapper_tensor example_world (Wrap example_dead_A) (Wrap example_dead) False =
        ([Copy example_A example_B False], example_A)
   \<and> copy_wrapper_tensor example_world (Wrap example_dead_A) (Wrap example_alive_B) False =
        ([Warn], Wrap example_dead_A)"
proof -
  have m: "maybeGetTensorWrapper (Wrap example_dead_A) = Some example_dead_A"
    "maybeGetTensorWrapper (Wrap example_dead) = Some example_dead"
    "maybeGetTensorWrapper (Wrap example_alive_B) = Some example_alive_B"
    by (simp_all add: example_dead_A_def example_dead_def example_alive_B_def example_simps)
  have l: "\<not> is_alive example_world example_dead_A" "\<not> is_alive example_world example_dead"
    "is_alive example_world example_alive_B"
    by (simp_all add: is_alive_def example_dead_A_def example_dead_def example_alive_B_def
        example_simps example_world_def)
  have v: "value example_dead_A = example_A" "value example_dead = example_B"
    "level_m example_dead_A = 1" "level_m example_dead = 5" "level_m example_alive_B = 1"
    by (simp_all add: value_def example_dead_A_def example_dead_def example_alive_B_def example_simps)
  have c: "Tensor_copy example_world example_A example_B False = example_A"
    by (simp add: example_world_def)
  show ?thesis
    using copy_level_test_is_liveness_sensitive [OF m(1) m(2), of example_world False]
      copy_level_test_is_liveness_sensitive [OF m(1) m(3), of example_world False]
      m l v c
    by simp
qed

text \<open>
  C3. For two alive wrappers of the same level the handler copies between the underlying
  values and returns what that \<open>copy_\<close> returns: the underlying value of \<open>self\<close>, not \<open>self\<close>.
\<close>

theorem copy_wrapper_tensor_returns_underlying:
  "copy_wrapper_tensor example_world (Wrap example_alive) (Wrap example_alive_B) False =
     ([Copy example_A example_B False], example_A)
   \<and> example_A \<noteq> Wrap example_alive"
  by (simp add: copy_wrapper_tensor_def example_alive_def example_alive_B_def example_simps
      level_def is_alive_def value_def example_world_def example_A_def)

subsection \<open>Liveness is final\<close>

text \<open>No action revives an allocated handle that is dead.\<close>

lemma step_keeps_dead:
  assumes "h < next_handle w" "\<not> flags w h"
  shows "h < next_handle (step a w) \<and> \<not> flags (step a w) h"
proof (cases a)
  case (MarkDead h')
  then show ?thesis using assms by (simp add: markDead_def)
next
  case Create
  then show ?thesis using assms by (simp add: create_def)
next
  case (MakeTensorWrapper t l)
  then show ?thesis using assms by simp
next
  case (MakeTensorWrapperPtr t l b)
  show ?thesis
  proof (cases "makeTensorWrapperPtr w t l b")
    case (Inl e)
    then show ?thesis using assms MakeTensorWrapperPtr by simp
  next
    case (Inr r)
    obtain w' tw where r: "r = (w', tw)" by (cases r)
    show ?thesis
      using makeTensorWrapperPtr_result(5) [OF Inr [unfolded r]] assms MakeTensorWrapperPtr Inr r
      by (cases b) auto
  qed
next
  case (ShallowCopyAndDetach p vc am)
  show ?thesis
  proof (cases "makeTensorWrapperPtr w (value p) (level_m p) (is_alive w p)")
    case (Inl e)
    then show ?thesis
      using assms ShallowCopyAndDetach by (simp add: shallow_copy_and_detach_def)
  next
    case (Inr r)
    obtain w' tw where r: "r = (w', tw)" by (cases r)
    show ?thesis
      using makeTensorWrapperPtr_result(5) [OF Inr [unfolded r]] assms ShallowCopyAndDetach Inr r
      by (cases "is_alive w p") (auto simp: shallow_copy_and_detach_def)
  qed
qed

lemma run_keeps_dead:
  "h < next_handle w \<Longrightarrow> \<not> flags w h \<Longrightarrow>
     h < next_handle (run acts w) \<and> \<not> flags (run acts w) h"
proof (induction acts arbitrary: w)
  case Nil
  then show ?case by simp
next
  case (Cons a acts)
  then show ?case using step_keeps_dead [of h w a] by simp
qed

text \<open>
  C4. For every wrapper \<open>p\<close> made by the constructor at level \<open>l\<close> with an allocated handle:
  while the handle is true, \<open>p\<close> is alive and \<open>level()\<close> is \<open>l\<close>; once the handle is marked
  dead, \<open>p\<close> is not alive and \<open>level()\<close> is absent, and that stays so whatever happens next.
\<close>

theorem level_follows_liveness:
  assumes "TensorWrapper_ctor w0 ks v l h b = Inr p" and "h < next_handle w"
  shows "(flags w h \<longrightarrow> is_alive w p \<and> level w p = Some l)
     \<and> \<not> is_alive (markDead h w) p \<and> level (markDead h w) p = None
     \<and> \<not> is_alive (run acts (markDead h w)) p \<and> level (run acts (markDead h w)) p = None"
proof -
  have f: "is_alive_m p = h" "level_m p = l"
    using ctor_fields [OF assms(1)] by simp_all
  have d: "h < next_handle (markDead h w)" "\<not> flags (markDead h w) h"
    using assms(2) by (simp_all add: markDead_def)
  have r: "\<not> flags (run acts (markDead h w)) h"
    using run_keeps_dead [OF d] by simp
  show ?thesis
    using f d r by (simp add: is_alive_def level_def)
qed

theorem level_follows_liveness_witness:
  "TensorWrapper_ctor example_world {kGradWrapperKey, Key (BackendKey 0)} example_A 1 1 True =
     Inr example_alive
   \<and> 1 < next_handle example_world \<and> flags example_world 1
   \<and> is_alive example_world example_alive \<and> level example_world example_alive = Some 1
   \<and> \<not> is_alive (markDead 1 example_world) example_alive
   \<and> level (markDead 1 example_world) example_alive = None
   \<and> \<not> is_alive (run [Create, MakeTensorWrapperPtr example_A 1 False, MarkDead 3]
                      (markDead 1 example_world)) example_alive
   \<and> level (run [Create, MakeTensorWrapperPtr example_A 1 False, MarkDead 3]
                (markDead 1 example_world)) example_alive = None"
proof -
  have h: "1 < next_handle example_world" "flags example_world 1"
    by (simp_all add: example_world_def)
  show ?thesis
    using level_follows_liveness [OF example_alive_ctor h(1),
        of "[Create, MakeTensorWrapperPtr example_A 1 False, MarkDead 3]"] example_alive_ctor h
    by simp
qed

subsection \<open>Duplication\<close>










end
